theory Spec2Isabelle
  imports Complex_Main "HOL-Library.Monad_Syntax"
begin

section \<open>Keplerian planet positions: the numeric core of planetPosition.js\<close>

text \<open>
  JavaScript numbers are modelled as exact reals, so every statement below is about the
  arithmetic the program writes down, free of rounding. The non-finite values of IEEE
  arithmetic (Infinity and NaN, produced by a division by zero or by the square root of
  a negative number) are not reals: where the program can produce one, the model
  returns \<open>None\<close>.
\<close>

subsection \<open>Constants\<close>

definition deg2rad :: real where
  "deg2rad = pi / 180"

definition tolerance :: real where
  \<comment> \<open>the literal \<open>10e-6\<close>\<close>
  "tolerance = 10 * (1 / 10 ^ 6)"

subsection \<open>solveKeplerEquation\<close>

text \<open>
  The state of the \<open>for\<close> loop is the counter \<open>i\<close> and the variables \<open>E2\<close> and
  \<open>difE1E2\<close>; \<open>E1\<close> is assigned once before the loop and never inside it, so it is
  a parameter of the loop. A zero divisor makes \<open>dE\<close>, \<open>E2\<close> and the returned value
  non-finite.
\<close>

function keplerLoop :: "real \<Rightarrow> real \<Rightarrow> real \<Rightarrow> real \<Rightarrow> nat \<times> real \<times> real \<Rightarrow> (nat \<times> real \<times> real) option" where
  "keplerLoop M e e1 E1 (i, E2, difE1E2) =
     (if i < 1000 \<and> difE1E2 > tolerance then
        (let dM = M - (E1 - e1 * sin (deg2rad * E1));
             divisor = 1 - e * cos (deg2rad * E1)
         in if divisor = 0 then None
            else (let dE = dM / divisor;
                      E2' = E1 + dE
                  in keplerLoop M e e1 E1 (i + 1, E2', \<bar>E1 - E2'\<bar>)))
      else Some (i, E2, difE1E2))"
  by pat_completeness auto

termination
  by (relation "measure (\<lambda>(M, e, e1, E1, i, E2, d). 1000 - i)") auto

declare keplerLoop.simps [simp del]

definition solveKeplerRun :: "real \<Rightarrow> real \<Rightarrow> (nat \<times> real \<times> real) option" where
  \<comment> \<open>the body of \<open>solveKeplerEquation\<close> up to the end of the loop\<close>
  "solveKeplerRun M e =
     (let e1 = 180 / pi * e;
          E0 = M + e1 * sin (M * deg2rad);
          E1 = E0
      in keplerLoop M e e1 E1 (0, 0, 1))"

definition solveKeplerEquation :: "real \<Rightarrow> real \<Rightarrow> real option" where
  \<comment> \<open>\<open>return E2\<close>\<close>
  "solveKeplerEquation M e = map_option (\<lambda>(i, E2, difE1E2). E2) (solveKeplerRun M e)"

subsection \<open>The solver as the specification describes it\<close>

text \<open>
  The specification asks for an iterated Newton-Raphson solve: from the same initial guess,
  every iteration computes the correction at the current iterate and then replaces the
  iterate by the corrected value; the iteration stops when two successive iterates differ
  by at most the tolerance, or after 1000 iterations. The first argument of
  \<open>newtonRaphson_spec\<close> is the number of iterations still allowed.
\<close>

fun newtonRaphson_spec :: "nat \<Rightarrow> real \<Rightarrow> real \<Rightarrow> real \<Rightarrow> real \<Rightarrow> real option" where
  "newtonRaphson_spec 0 M e e1 E = Some E"
| "newtonRaphson_spec (Suc n) M e e1 E =
     (let dM = M - (E - e1 * sin (deg2rad * E));
          divisor = 1 - e * cos (deg2rad * E)
      in if divisor = 0 then None
         else (let dE = dM / divisor;
                   E' = E + dE
               in if \<bar>E - E'\<bar> \<le> tolerance then Some E'
                  else newtonRaphson_spec n M e e1 E'))"

definition solveKeplerEquation_spec :: "real \<Rightarrow> real \<Rightarrow> real option" where
  "solveKeplerEquation_spec M e =
     (let e1 = 180 / pi * e;
          E0 = M + e1 * sin (M * deg2rad)
      in newtonRaphson_spec 1000 M e e1 E0)"

subsection \<open>The tables of Keplerian elements\<close>

text \<open>
  A row of a table is a JavaScript array: the name of the body at index 0 and sixteen
  numbers at indices 1 to 16, in the order
  \<open>a0 e0 I0 L0 W0 O0 at et It Lt Wt Ot b c s f\<close>.
\<close>

datatype cell = Name string | Num real

type_synonym row = "cell list"

type_synonym elementsTable = "row list"

definition keplerianElements2050 :: elementsTable where
  "keplerianElements2050 =
  [Name ''Mercury'' # map Num
     [0.38709927, 0.20563593, 7.00497902, 252.25032350, 77.45779628, 48.33076593,
      0.00000037, 0.00001906, - 0.00594749, 149472.67411175, 0.16047689, - 0.12534081,
      0, 0, 0, 0],
   Name ''Venus'' # map Num
     [0.72333566, 0.00677672, 3.39467605, 181.97909950, 131.60246718, 76.67984255,
      0.00000390, - 0.00004107, - 0.00078890, 58517.81538729, 0.00268329, - 0.27769418,
      0, 0, 0, 0],
   Name ''EM Bary'' # map Num
     [1.00000261, 0.01671123, - 0.00001531, 100.46457166, 102.93768193, 0.0,
      0.00000562, - 0.00004392, - 0.01294668, 35999.37244981, 0.32327364, 0.0,
      0, 0, 0, 0],
   Name ''Mars'' # map Num
     [1.52371034, 0.09339410, 1.84969142, - 4.55343205, - 23.94362959, 49.55953891,
      0.00001847, - 0.00007882, - 0.00813131, 19140.30268499, 0.44441088, - 0.29257343,
      0, 0, 0, 0],
   Name ''Jupiter'' # map Num
     [5.20288700, 0.04838624, 1.30439695, 34.39644051, 14.72847983, 100.47390909,
      - 0.00011607, - 0.00013253, - 0.00183714, 3034.74612775, 0.21252668, 0.20469106,
      0, 0, 0, 0],
   Name ''Saturn'' # map Num
     [9.53667594, 0.05386179, 2.48599187, 49.95424423, 92.59887831, 113.66242448,
      - 0.00125060, - 0.00050991, 0.00193609, 1222.49362201, - 0.41897216, - 0.28867794,
      0, 0, 0, 0],
   Name ''Uranus'' # map Num
     [19.18916464, 0.04725744, 0.77263783, 313.23810451, 170.95427630, 74.01692503,
      - 0.00196176, - 0.00004397, - 0.00242939, 428.48202785, 0.40805281, 0.04240589,
      0, 0, 0, 0],
   Name ''Neptune'' # map Num
     [30.06992276, 0.00859048, 1.77004347, - 55.12002969, 44.96476227, 131.78422574,
      0.00026291, 0.00005105, 0.00035372, 218.45945325, - 0.32241464, - 0.00508664,
      0, 0, 0, 0],
   Name ''Pluto'' # map Num
     [39.48211675, 0.24882730, 17.14001206, 238.92903833, 224.06891629, 110.30393684,
      - 0.00031596, 0.00005170, 0.00004818, 145.20780515, - 0.04062942, - 0.01183482,
      0, 0, 0, 0]]"

definition keplerianElements3000 :: elementsTable where
  "keplerianElements3000 =
  [Name ''Mercury'' # map Num
     [0.38709843, 0.20563661, 7.00559432, 252.25166724, 77.45771895, 48.33961819,
      0.00000000, 0.00002123, - 0.00590158, 149472.67486623, 0.15940013, - 0.12214182,
      0, 0, 0, 0],
   Name ''Venus'' # map Num
     [0.72332102, 0.00676399, 3.39777545, 181.97970850, 131.76755713, 76.67261496,
      - 0.00000026, - 0.00005107, 0.00043494, 58517.81560260, 0.05679648, - 0.27274174,
      0, 0, 0, 0],
   Name ''EM Bary'' # map Num
     [1.00000018, 0.01673163, - 0.00054346, 100.46691572, 102.93005885, - 5.11260389,
      - 0.00000003, - 0.00003661, - 0.01337178, 35999.37306329, 0.31795260, - 0.24123856,
      0, 0, 0, 0],
   Name ''Mars'' # map Num
     [1.52371243, 0.09336511, 1.85181869, - 4.56813164, - 23.91744784, 49.71320984,
      0.00000097, 0.00009149, - 0.00724757, 19140.29934243, 0.45223625, - 0.26852431,
      0, 0, 0, 0],
   Name ''Jupiter'' # map Num
     [5.20248019, 0.04853590, 1.29861416, 34.33479152, 14.27495244, 100.29282654,
      - 0.00002864, 0.00018026, - 0.00322699, 3034.90371757, 0.18199196, 0.13024619,
      - 0.00012452, 0.06064060, - 0.35635438, 38.35125000],
   Name ''Saturn'' # map Num
     [9.54149883, 0.05550825, 2.49424102, 50.07571329, 92.86136063, 113.63998702,
      - 0.00003065, - 0.00032044, 0.00451969, 1222.11494724, 0.54179478, - 0.25015002,
      0.00025899, - 0.13434469, 0.87320147, 38.35125000],
   Name ''Uranus'' # map Num
     [19.18797948, 0.04685740, 0.77298127, 314.20276625, 172.43404441, 73.96250215,
      - 0.00020455, - 0.00001550, - 0.00180155, 428.49512595, 0.09266985, 0.05739699,
      0.00058331, - 0.97731848, 0.17689245, 7.67025000],
   Name ''Neptune'' # map Num
     [30.06952752, 0.00895439, 1.77005520, 304.22289287, 46.68158724, 131.78635853,
      0.00006447, 0.00000818, 0.00022400, 218.46515314, 0.01009938, - 0.00606302,
      - 0.00041348, 0.68346318, - 0.10162547, 7.67025000],
   Name ''Pluto'' # map Num
     [39.48686035, 0.24885238, 17.14104260, 238.96535011, 224.09702598, 110.30167986,
      0.00449751, 0.00006016, 0.00000501, 145.18042903, - 0.00968827, - 0.00809981,
      - 0.01262724, 0, 0, 0]]"

definition column :: "row \<Rightarrow> nat \<Rightarrow> real option" where
  \<comment> \<open>\<open>row[k]\<close> read as a number; an index past the end gives \<open>undefined\<close>, and
      arithmetic on \<open>undefined\<close> or on the name is not a finite number\<close>
  "column r k = (if k < length r then (case r ! k of Num x \<Rightarrow> Some x | Name s \<Rightarrow> None) else None)"

subsection \<open>computeEclipticCoordinates\<close>

datatype failure =
    TypeError   \<comment> \<open>thrown when a column of an undefined row is read\<close>
  | NotFinite   \<comment> \<open>the array returned holds NaN or Infinity\<close>

definition julianEphemerisDate :: "real \<Rightarrow> real" where
  \<comment> \<open>\<open>Teph\<close>\<close>
  "julianEphemerisDate UNIXMilliTime = UNIXMilliTime / 1000 / 86400 + 2440587.5"

definition centuriesPastJ2000 :: "real \<Rightarrow> real" where
  \<comment> \<open>\<open>T\<close>\<close>
  "centuriesPastJ2000 UNIXMilliTime = (julianEphemerisDate UNIXMilliTime - 2451545) / 36525"

record elements =
  el_a :: real
  el_e :: real
  el_I :: real
  el_L :: real
  el_W :: real
  el_O :: real
  el_w :: real
  el_M :: real

definition evaluatedElements :: "row \<Rightarrow> real \<Rightarrow> elements option" where
  \<comment> \<open>the Keplerian elements of the selected row at \<open>T\<close>, with the mean anomaly as first
      computed, before the modulus; \<open>at'\<close> and \<open>O'\<close> are the program's \<open>at\<close> and \<open>O\<close>\<close>
  "evaluatedElements r T =
     do {
       a0 \<leftarrow> column r 1;
       at' \<leftarrow> column r 7;
       let a = a0 + at' * T;
       e0 \<leftarrow> column r 2;
       et \<leftarrow> column r 8;
       let e = e0 + et * T;
       I0 \<leftarrow> column r 3;
       It \<leftarrow> column r 9;
       let I = I0 + It * T;
       L0 \<leftarrow> column r 4;
       Lt \<leftarrow> column r 10;
       let L = L0 + Lt * T;
       W0 \<leftarrow> column r 5;
       Wt \<leftarrow> column r 11;
       let W = W0 + Wt * T;
       O0 \<leftarrow> column r 6;
       Ot \<leftarrow> column r 12;
       let O' = O0 + Ot * T;
       b \<leftarrow> column r 13;
       c \<leftarrow> column r 14;
       s \<leftarrow> column r 15;
       f \<leftarrow> column r 16;
       let w = W - O';
       let M = L - W + b * T ^ 2 + c * cos (deg2rad * f * T) + s * sin (deg2rad * f * T);
       Some \<lparr>el_a = a, el_e = e, el_I = I, el_L = L, el_W = W, el_O = O', el_w = w, el_M = M\<rparr>
     }"

definition js_rem :: "real \<Rightarrow> real \<Rightarrow> real" where
  \<comment> \<open>the operator \<open>%\<close> for a nonzero divisor: the quotient is truncated towards zero,
      so the result has the sign of the dividend\<close>
  "js_rem x y = x - y * of_int (if 0 \<le> x / y then \<lfloor>x / y\<rfloor> else \<lceil>x / y\<rceil>)"

definition normalizeM :: "real \<Rightarrow> real" where
  \<comment> \<open>\<open>if(M < -180 || M > 180) M = M % 360\<close>\<close>
  "normalizeM M = (if M < - 180 \<or> M > 180 then js_rem M 360 else M)"

definition heliocentric :: "real \<Rightarrow> real \<Rightarrow> real \<Rightarrow> (real \<times> real \<times> real) option" where
  \<comment> \<open>\<open>x1\<close>, \<open>y1\<close>, \<open>z1\<close>; \<open>Math.sqrt\<close> of a negative number is NaN\<close>
  "heliocentric a e E =
     (if 1 - (e * e) < 0 then None
      else (let x1 = a * (cos (deg2rad * E) - e);
                y1 = a * sqrt (1 - (e * e)) * sin (deg2rad * E);
                z1 = 0
            in Some (x1, y1, z1)))"

definition eclipticRotation :: "real \<Rightarrow> real \<Rightarrow> real \<Rightarrow> real \<Rightarrow> real \<Rightarrow> real list" where
  \<comment> \<open>the auxiliary trigonometric values and the J2000 ecliptic plane coordinates\<close>
  "eclipticRotation w O' I x1 y1 =
     (let cosw = cos (deg2rad * w);
          sinw = sin (deg2rad * w);
          cosO = cos (deg2rad * O');
          sinO = sin (deg2rad * O');
          cosI = cos (deg2rad * I);
          sinI = sin (deg2rad * I);
          Xecl = (cosw * cosO - sinw * sinO * cosI) * x1 + (- sinw * cosO - cosw * sinO * cosI) * y1;
          Yecl = (cosw * sinO + sinw * cosO * cosI) * x1 + (- sinw * sinO + cosw * cosO * cosI) * y1;
          Zecl = (sinw * sinI) * x1 + (cosw * sinI) * y1
      in [Xecl, Yecl, Zecl])"

definition computeEclipticCoordinates :: "elementsTable \<Rightarrow> nat \<Rightarrow> real \<Rightarrow> failure + real list" where
  "computeEclipticCoordinates keplerianElementsTable planetIndex UNIXMilliTime =
     (if planetIndex < length keplerianElementsTable then
        (let T = centuriesPastJ2000 UNIXMilliTime
         in case evaluatedElements (keplerianElementsTable ! planetIndex) T of
              None \<Rightarrow> Inl NotFinite
            | Some els \<Rightarrow>
                (let M = normalizeM (el_M els)
                 in case solveKeplerEquation M (el_e els) of
                      None \<Rightarrow> Inl NotFinite
                    | Some E \<Rightarrow>
                        (case heliocentric (el_a els) (el_e els) E of
                           None \<Rightarrow> Inl NotFinite
                         | Some (x1, y1, z1) \<Rightarrow>
                             Inr (eclipticRotation (el_w els) (el_O els) (el_I els) x1 y1))))
      else Inl TypeError)"

subsection \<open>convertToICRF\<close>

definition convertToICRF :: "real list \<Rightarrow> real list option" where
  \<comment> \<open>a component read past the end of the argument is \<open>undefined\<close>\<close>
  "convertToICRF EclipticCoordinates =
     (if length EclipticCoordinates < 3 then None
      else (let E = 23.43928;
                cosE = cos (deg2rad * E);
                sinE = sin (deg2rad * E);
                Xeq = EclipticCoordinates ! 0;
                Yeq = cosE * EclipticCoordinates ! 1 - sinE * EclipticCoordinates ! 2;
                Zeq = sinE * EclipticCoordinates ! 1 + cosE * EclipticCoordinates ! 2
            in Some [Xeq, Yeq, Zeq]))"

subsection \<open>Vocabulary of the properties\<close>

definition magnitude :: "real list \<Rightarrow> real" where
  \<comment> \<open>the Euclidean norm of a vector\<close>
  "magnitude v = sqrt (\<Sum>x\<leftarrow>v. x ^ 2)"

definition keplerResidual :: "real \<Rightarrow> real \<Rightarrow> real \<Rightarrow> real" where
  \<comment> \<open>the left-hand side of Kepler's equation in degrees, minus \<open>M\<close>\<close>
  "keplerResidual M e E = E - 180 / pi * e * sin (E * pi / 180) - M"

text \<open>
  For \<open>M = 90\<close> and \<open>e = 1/4\<close> an eccentric anomaly is written as 90 degrees plus an
  offset of \<open>t\<close> radians. In that coordinate the residual of Kepler's equation is
  \<open>t - cos t / 4\<close> radians and one Newton-Raphson correction is \<open>newtonAt\<close>.
\<close>

definition anomalyAt :: "real \<Rightarrow> real" where
  "anomalyAt t = 90 + 180 / pi * t"

definition residualAt :: "real \<Rightarrow> real" where
  "residualAt t = t - cos t / 4"

definition newtonAt :: "real \<Rightarrow> real" where
  "newtonAt t = t - residualAt t / (1 + sin t / 4)"

section \<open>Properties\<close>

subsection \<open>The loop\<close>

lemma keplerLoop_exit:
  "\<not> (i < 1000 \<and> d > tolerance) \<Longrightarrow> keplerLoop M e e1 E1 (i, E2, d) = Some (i, E2, d)"
  by (subst keplerLoop.simps) auto

lemma keplerLoop_zero_divisor:
  "i < 1000 \<Longrightarrow> d > tolerance \<Longrightarrow> 1 - e * cos (deg2rad * E1) = 0 \<Longrightarrow>
   keplerLoop M e e1 E1 (i, E2, d) = None"
  by (subst keplerLoop.simps) simp

lemma keplerLoop_step:
  "i < 1000 \<Longrightarrow> d > tolerance \<Longrightarrow> 1 - e * cos (deg2rad * E1) \<noteq> 0 \<Longrightarrow>
   keplerLoop M e e1 E1 (i, E2, d) =
   keplerLoop M e e1 E1 (i + 1,
     E1 + (M - (E1 - e1 * sin (deg2rad * E1))) / (1 - e * cos (deg2rad * E1)),
     \<bar>E1 - (E1 + (M - (E1 - e1 * sin (deg2rad * E1))) / (1 - e * cos (deg2rad * E1)))\<bar>)"
  by (subst keplerLoop.simps) (simp add: Let_def)

text \<open>
  Once \<open>E2\<close> holds the correction of \<open>E1\<close>, every further iteration stores the same
  value again: the loop ends in a state with that \<open>E2\<close>, a counter of at most 1000,
  and either the counter at 1000 or the difference within the tolerance.
\<close>

lemma keplerLoop_fixed:
  assumes "1 - e * cos (deg2rad * E1) \<noteq> 0"
    and "E2 = E1 + (M - (E1 - e1 * sin (deg2rad * E1))) / (1 - e * cos (deg2rad * E1))"
    and "i \<le> 1000"
  shows "\<exists>i' d'. keplerLoop M e e1 E1 (i, E2, d) = Some (i', E2, d') \<and> i' \<le> 1000
           \<and> (i' = 1000 \<or> d' \<le> tolerance)"
  using assms(3)
proof (induction "1000 - i" arbitrary: i d)
  case 0
  then have "keplerLoop M e e1 E1 (i, E2, d) = Some (i, E2, d)" and "i = 1000"
    by (simp_all add: keplerLoop_exit)
  then show ?case
    by simp
next
  case (Suc n)
  show ?case
  proof (cases "d > tolerance")
    case False
    then have "keplerLoop M e e1 E1 (i, E2, d) = Some (i, E2, d)"
      by (simp add: keplerLoop_exit)
    with False Suc.prems show ?thesis
      by simp
  next
    case True
    from Suc.hyps(2) have i: "i < 1000"
      by simp
    have step: "keplerLoop M e e1 E1 (i, E2, d) = keplerLoop M e e1 E1 (i + 1, E2, \<bar>E1 - E2\<bar>)"
      using keplerLoop_step [OF i True assms(1), of M e1 E2] assms(2) by simp
    from Suc.hyps(2) have "n = 1000 - (i + 1)" and "i + 1 \<le> 1000"
      by simp_all
    then have "\<exists>i' d'. keplerLoop M e e1 E1 (i + 1, E2, \<bar>E1 - E2\<bar>) = Some (i', E2, d')
            \<and> i' \<le> 1000 \<and> (i' = 1000 \<or> d' \<le> tolerance)"
      by (rule Suc.hyps(1))
    then show ?thesis
      by (simp only: step)
  qed
qed

lemma divisor_nonzero:
  fixes e x :: real
  assumes "\<bar>e\<bar> < 1"
  shows "1 - e * cos x \<noteq> 0"
proof
  assume "1 - e * cos x = 0"
  then have "e * cos x = 1"
    by simp
  then have "\<bar>e * cos x\<bar> = 1"
    by simp
  moreover have "\<bar>e * cos x\<bar> \<le> \<bar>e\<bar> * 1"
    unfolding abs_mult by (rule mult_left_mono) simp_all
  ultimately show False
    using assms by simp
qed

lemma solveKeplerRun_result:
  fixes M e :: real
  defines "E0 \<equiv> M + 180 / pi * e * sin (M * deg2rad)"
  assumes "1 - e * cos (deg2rad * E0) \<noteq> 0"
  shows "\<exists>i d. solveKeplerRun M e =
           Some (i, E0 + (M - (E0 - 180 / pi * e * sin (deg2rad * E0))) / (1 - e * cos (deg2rad * E0)), d)
         \<and> i \<le> 1000 \<and> (i = 1000 \<or> d \<le> tolerance)"
proof -
  let ?E2 = "E0 + (M - (E0 - 180 / pi * e * sin (deg2rad * E0))) / (1 - e * cos (deg2rad * E0))"
  have "(0::nat) < 1000" and "(1::real) > tolerance"
    by (simp_all add: tolerance_def)
  then have "keplerLoop M e (180 / pi * e) E0 (0, 0, 1) =
      keplerLoop M e (180 / pi * e) E0 (0 + 1, ?E2, \<bar>E0 - ?E2\<bar>)"
    using assms(2) by (rule keplerLoop_step)
  moreover have "\<exists>i d. keplerLoop M e (180 / pi * e) E0 (0 + 1, ?E2, \<bar>E0 - ?E2\<bar>) = Some (i, ?E2, d)
      \<and> i \<le> 1000 \<and> (i = 1000 \<or> d \<le> tolerance)"
    using assms(2) by (rule keplerLoop_fixed) simp_all
  ultimately show ?thesis
    by (simp add: solveKeplerRun_def Let_def E0_def)
qed

lemma solveKeplerRun_zero_divisor:
  assumes "1 - e * cos (deg2rad * (M + 180 / pi * e * sin (M * deg2rad))) = 0"
  shows "solveKeplerRun M e = None"
proof -
  have "(0::nat) < 1000" and "(1::real) > tolerance"
    by (simp_all add: tolerance_def)
  then have "keplerLoop M e (180 / pi * e) (M + 180 / pi * e * sin (M * deg2rad)) (0, 0, 1) = None"
    using assms by (rule keplerLoop_zero_divisor)
  then show ?thesis
    by (simp add: solveKeplerRun_def Let_def)
qed

subsection \<open>The value returned by solveKeplerEquation\<close>

text \<open>
  Claim C10. For every \<open>M\<close> and \<open>e\<close>, the value returned by \<open>solveKeplerEquation\<close> is
  one Newton correction applied to the initial guess,
  \<open>E0 + (M - (E0 - e1 * sin (E0 * pi / 180))) / (1 - e * cos (E0 * pi / 180))\<close> with
  \<open>E0 = M + e1 * sin (M * pi / 180)\<close> and \<open>e1 = 180 / pi * e\<close>, however many of the up to
  1000 iterations run, because \<open>E1\<close> is never reassigned inside the loop. Where the
  divisor of that correction is zero, the function and the formula are both non-finite.
\<close>

theorem solveKeplerEquation_single_correction:
  "solveKeplerEquation M e =
     (let e1 = 180 / pi * e;
          E0 = M + e1 * sin (M * pi / 180)
      in if 1 - e * cos (E0 * pi / 180) = 0 then None
         else Some (E0 + (M - (E0 - e1 * sin (E0 * pi / 180))) / (1 - e * cos (E0 * pi / 180))))"
proof -
  let ?E0 = "M + 180 / pi * e * sin (M * deg2rad)"
  have eq: "deg2rad * x = x * pi / 180" "x * deg2rad = x * pi / 180" for x
    by (simp_all add: deg2rad_def)
  show ?thesis
  proof (cases "1 - e * cos (deg2rad * ?E0) = 0")
    case True
    then have "solveKeplerRun M e = None"
      by (rule solveKeplerRun_zero_divisor)
    with True show ?thesis
      by (simp add: solveKeplerEquation_def Let_def eq)
  next
    case False
    from solveKeplerRun_result [OF False] obtain i d where
      "solveKeplerRun M e = Some (i, ?E0 + (M - (?E0 - 180 / pi * e * sin (deg2rad * ?E0)))
         / (1 - e * cos (deg2rad * ?E0)), d)"
      by blast
    with False show ?thesis
      by (simp add: solveKeplerEquation_def Let_def eq)
  qed
qed

theorem solveKeplerEquation_single_correction_witness:
  "solveKeplerEquation 0 0 = Some 0 \<and> solveKeplerEquation 0 1 = None"
  using solveKeplerEquation_single_correction [of 0 0]
    solveKeplerEquation_single_correction [of 0 1]
  by simp

text \<open>
  Claim C7. For eccentricity \<open>e = 0\<close>, \<open>solveKeplerEquation M 0\<close> returns \<open>M\<close> itself,
  for every mean anomaly \<open>M\<close>.
\<close>

theorem solveKeplerEquation_circular:
  "solveKeplerEquation M 0 = Some M"
proof -
  have "1 - 0 * cos (deg2rad * (M + 180 / pi * 0 * sin (M * deg2rad))) \<noteq> 0"
    by simp
  from solveKeplerRun_result [OF this] show ?thesis
    by (auto simp add: solveKeplerEquation_def)
qed

text \<open>
  Claim C9. For every \<open>M\<close> and every \<open>e\<close> with \<open>0 \<le> e < 1\<close>, \<open>solveKeplerEquation\<close>
  returns a number: the divisor \<open>1 - e * cos E\<close> of the Newton step is never zero, the
  loop ends with its counter at 1000 at most, and the value of \<open>E2\<close> it ends with is
  returned, whether the loop ended within the tolerance or at the cap.
\<close>

theorem solveKeplerEquation_total:
  assumes "0 \<le> e" and "e < 1"
  shows "(\<forall>E. 1 - e * cos (deg2rad * E) \<noteq> 0)
       \<and> (\<exists>i E2 d. solveKeplerRun M e = Some (i, E2, d) \<and> i \<le> 1000
             \<and> (i = 1000 \<or> d \<le> tolerance) \<and> solveKeplerEquation M e = Some E2)"
proof -
  from assms have e: "\<bar>e\<bar> < 1"
    by simp
  then have nz: "1 - e * cos x \<noteq> 0" for x
    by (rule divisor_nonzero)
  from solveKeplerRun_result [OF nz] obtain i E2 d where
    "solveKeplerRun M e = Some (i, E2, d)" "i \<le> 1000" "i = 1000 \<or> d \<le> tolerance"
    by blast
  then have "solveKeplerRun M e = Some (i, E2, d) \<and> i \<le> 1000
      \<and> (i = 1000 \<or> d \<le> tolerance) \<and> solveKeplerEquation M e = Some E2"
    by (simp add: solveKeplerEquation_def)
  with nz show ?thesis
    by blast
qed

theorem solveKeplerEquation_total_witness:
  "(0::real) \<le> 1 / 2 \<and> (1 / 2 :: real) < 1
   \<and> (\<forall>E. 1 - 1 / 2 * cos (deg2rad * E) \<noteq> 0)
   \<and> (\<exists>i E2 d. solveKeplerRun 90 (1 / 2) = Some (i, E2, d) \<and> i \<le> 1000
         \<and> (i = 1000 \<or> d \<le> tolerance) \<and> solveKeplerEquation 90 (1 / 2) = Some E2)"
  using solveKeplerEquation_total [of "1 / 2" 90] by simp

subsection \<open>The frame transforms\<close>

text \<open>
  Claim C6. For every input with the three components \<open>Xecl\<close>, \<open>Yecl\<close>, \<open>Zecl\<close>,
  \<open>convertToICRF\<close> returns the rotation about the X axis by the constant obliquity of
  23.43928 degrees: component 0 is \<open>Xecl\<close>, component 1 is
  \<open>cos eps * Yecl - sin eps * Zecl\<close> and component 2 is \<open>sin eps * Yecl + cos eps * Zecl\<close>.
  The function has no argument but the vector, so the angle comes from no table.
\<close>

theorem convertToICRF_rotation:
  "convertToICRF [Xecl, Yecl, Zecl] =
     Some [Xecl,
           cos (23.43928 * pi / 180) * Yecl - sin (23.43928 * pi / 180) * Zecl,
           sin (23.43928 * pi / 180) * Yecl + cos (23.43928 * pi / 180) * Zecl]"
proof -
  have eps: "deg2rad * 23.43928 = 23.43928 * pi / 180"
    by (simp add: deg2rad_def)
  show ?thesis
    unfolding convertToICRF_def Let_def eps by simp
qed

lemma euler_rotation_squares:
  fixes cw sw cO sO cI sI x y :: real
  assumes "sw ^ 2 + cw ^ 2 = 1" "sO ^ 2 + cO ^ 2 = 1" "sI ^ 2 + cI ^ 2 = 1"
  shows "((cw * cO - sw * sO * cI) * x + (- sw * cO - cw * sO * cI) * y) ^ 2
       + ((cw * sO + sw * cO * cI) * x + (- sw * sO + cw * cO * cI) * y) ^ 2
       + ((sw * sI) * x + (cw * sI) * y) ^ 2 = x ^ 2 + y ^ 2"
proof -
  have "((cw * cO - sw * sO * cI) * x + (- sw * cO - cw * sO * cI) * y) ^ 2
       + ((cw * sO + sw * cO * cI) * x + (- sw * sO + cw * cO * cI) * y) ^ 2
       + ((sw * sI) * x + (cw * sI) * y) ^ 2
     = (sO ^ 2 + cO ^ 2) * (cw ^ 2 + sw ^ 2 * cI ^ 2) * x ^ 2
     + (sO ^ 2 + cO ^ 2) * (sw ^ 2 + cw ^ 2 * cI ^ 2) * y ^ 2
     + 2 * (sO ^ 2 + cO ^ 2) * (cw * sw * cI ^ 2 - cw * sw) * x * y
     + sI ^ 2 * (sw * x + cw * y) ^ 2"
    by (simp add: power2_eq_square algebra_simps)
  also have "\<dots> = (cw ^ 2 + sw ^ 2 * cI ^ 2) * x ^ 2 + (sw ^ 2 + cw ^ 2 * cI ^ 2) * y ^ 2
     + 2 * (cw * sw * cI ^ 2 - cw * sw) * x * y + sI ^ 2 * (sw * x + cw * y) ^ 2"
    by (simp add: assms)
  also have "\<dots> = (cw ^ 2 + sw ^ 2 * (sI ^ 2 + cI ^ 2)) * x ^ 2
     + (sw ^ 2 + cw ^ 2 * (sI ^ 2 + cI ^ 2)) * y ^ 2
     + 2 * (cw * sw * (sI ^ 2 + cI ^ 2) - cw * sw) * x * y"
    by (simp add: power2_eq_square algebra_simps)
  also have "\<dots> = (cw ^ 2 + sw ^ 2 * 1) * x ^ 2 + (sw ^ 2 + cw ^ 2 * 1) * y ^ 2
     + 2 * (cw * sw * 1 - cw * sw) * x * y"
    by (simp only: assms)
  also have "\<dots> = (sw ^ 2 + cw ^ 2) * (x ^ 2 + y ^ 2)"
    by (simp add: algebra_simps)
  finally show ?thesis
    by (simp add: assms)
qed

text \<open>
  Claim C8. Both frame transforms preserve the Euclidean magnitude: the ecliptic
  rotation of an orbital-plane vector \<open>(x1, y1, 0)\<close> has the magnitude of that vector,
  and the vector returned by \<open>convertToICRF\<close> has the magnitude of its 3-component input.
\<close>

theorem rotations_preserve_magnitude:
  "magnitude (eclipticRotation w O' I x1 y1) = magnitude [x1, y1, 0]
   \<and> map_option magnitude (convertToICRF [X, Y, Z]) = Some (magnitude [X, Y, Z])"
proof -
  have "(\<Sum>x\<leftarrow>eclipticRotation w O' I x1 y1. x ^ 2) = x1 ^ 2 + y1 ^ 2"
    unfolding eclipticRotation_def Let_def
    using euler_rotation_squares [of "sin (deg2rad * w)" "cos (deg2rad * w)"
        "sin (deg2rad * O')" "cos (deg2rad * O')" "sin (deg2rad * I)" "cos (deg2rad * I)" x1 y1]
    by simp
  then have ecl: "magnitude (eclipticRotation w O' I x1 y1) = magnitude [x1, y1, 0]"
    by (simp add: magnitude_def)
  have "(c * Y - s * Z) ^ 2 + (s * Y + c * Z) ^ 2 = (s ^ 2 + c ^ 2) * (Y ^ 2 + Z ^ 2)"
    for c s :: real
    by (simp add: power2_eq_square algebra_simps)
  then have "map_option magnitude (convertToICRF [X, Y, Z]) = Some (magnitude [X, Y, Z])"
    by (simp add: magnitude_def convertToICRF_def Let_def)
  with ecl show ?thesis
    by simp
qed

subsection \<open>The element evaluator\<close>

lemma evaluatedElements_columns:
  assumes "map (column r) [1, 2, 3, 4, 5, 6, 7, 8, 9, 10, 11, 12, 13, 14, 15, 16] =
           map Some [a0, e0, I0, L0, W0, O0, at', et, It, Lt, Wt, Ot, b, c, s, f]"
  shows "evaluatedElements r T =
     Some \<lparr>el_a = a0 + at' * T, el_e = e0 + et * T, el_I = I0 + It * T, el_L = L0 + Lt * T,
           el_W = W0 + Wt * T, el_O = O0 + Ot * T, el_w = (W0 + Wt * T) - (O0 + Ot * T),
           el_M = (L0 + Lt * T) - (W0 + Wt * T) + b * T ^ 2 + c * cos (deg2rad * f * T)
                    + s * sin (deg2rad * f * T)\<rparr>"
  using assms by (simp add: evaluatedElements_def Let_def)

lemma earth_row_2050:
  "keplerianElements2050 ! 2 = Name ''EM Bary'' # map Num
     [1.00000261, 0.01671123, - 0.00001531, 100.46457166, 102.93768193, 0.0,
      0.00000562, - 0.00004392, - 0.01294668, 35999.37244981, 0.32327364, 0.0,
      0, 0, 0, 0]"
  by (simp add: keplerianElements2050_def)

text \<open>
  Claim C4. \<open>computeEclipticCoordinates\<close> evaluates the elements by the formulas
  \<open>JED = instantMillis / 1000 / 86400 + 2440587.5\<close>, \<open>T = (JED - 2451545) / 36525\<close>,
  each of \<open>a\<close>, \<open>e\<close>, \<open>I\<close>, \<open>L\<close>, \<open>W\<close>, \<open>O\<close> as base plus rate times \<open>T\<close> (base from
  columns 1 to 6 of the selected row, rate from columns 7 to 12), \<open>w = W - O\<close>, and
  \<open>M = L - W + b * T\<^sup>2 + c * cos (f * T * deg2rad) + s * sin (f * T * deg2rad)\<close> with
  \<open>b\<close>, \<open>c\<close>, \<open>s\<close>, \<open>f\<close> from columns 13 to 16, which is \<open>L - W\<close> when those four are zero.
  The position returned is computed from exactly these values.
\<close>

theorem computeEclipticCoordinates_elements:
  fixes UNIXMilliTime :: real
  assumes "planetIndex < length keplerianElementsTable"
    and "map (column (keplerianElementsTable ! planetIndex))
           [1, 2, 3, 4, 5, 6, 7, 8, 9, 10, 11, 12, 13, 14, 15, 16] =
         map Some [a0, e0, I0, L0, W0, O0, at', et, It, Lt, Wt, Ot, b, c, s, f]"
  defines "JED \<equiv> UNIXMilliTime / 1000 / 86400 + 2440587.5"
  defines "T \<equiv> (JED - 2451545) / 36525"
  defines "a \<equiv> a0 + at' * T" and "e \<equiv> e0 + et * T" and "I \<equiv> I0 + It * T"
    and "L \<equiv> L0 + Lt * T" and "W \<equiv> W0 + Wt * T" and "O' \<equiv> O0 + Ot * T"
  defines "w \<equiv> W - O'"
    and "M \<equiv> L - W + b * T ^ 2 + c * cos (f * T * deg2rad) + s * sin (f * T * deg2rad)"
  shows "julianEphemerisDate UNIXMilliTime = JED
       \<and> centuriesPastJ2000 UNIXMilliTime = T
       \<and> evaluatedElements (keplerianElementsTable ! planetIndex) (centuriesPastJ2000 UNIXMilliTime) =
           Some \<lparr>el_a = a, el_e = e, el_I = I, el_L = L, el_W = W, el_O = O', el_w = w, el_M = M\<rparr>
       \<and> computeEclipticCoordinates keplerianElementsTable planetIndex UNIXMilliTime =
           (case solveKeplerEquation (normalizeM M) e of
              None \<Rightarrow> Inl NotFinite
            | Some E \<Rightarrow>
                (case heliocentric a e E of
                   None \<Rightarrow> Inl NotFinite
                 | Some (x1, y1, z1) \<Rightarrow> Inr (eclipticRotation w O' I x1 y1)))
       \<and> (b = 0 \<and> c = 0 \<and> s = 0 \<and> f = 0 \<longrightarrow> M = L - W)"
proof -
  have jed: "julianEphemerisDate UNIXMilliTime = JED"
    by (simp add: julianEphemerisDate_def JED_def)
  have t: "centuriesPastJ2000 UNIXMilliTime = T"
    by (simp add: centuriesPastJ2000_def jed T_def)
  have arg: "deg2rad * f * T = f * T * deg2rad"
    by simp
  have els: "evaluatedElements (keplerianElementsTable ! planetIndex) (centuriesPastJ2000 UNIXMilliTime) =
      Some \<lparr>el_a = a, el_e = e, el_I = I, el_L = L, el_W = W, el_O = O', el_w = w, el_M = M\<rparr>"
    unfolding t a_def e_def I_def L_def W_def O'_def w_def M_def arg [symmetric]
    using assms(2) by (rule evaluatedElements_columns)
  have run: "computeEclipticCoordinates keplerianElementsTable planetIndex UNIXMilliTime =
           (case solveKeplerEquation (normalizeM M) e of
              None \<Rightarrow> Inl NotFinite
            | Some E \<Rightarrow>
                (case heliocentric a e E of
                   None \<Rightarrow> Inl NotFinite
                 | Some (x1, y1, z1) \<Rightarrow> Inr (eclipticRotation w O' I x1 y1)))"
    using assms(1) els by (simp add: computeEclipticCoordinates_def Let_def split: option.splits)
  have "b = 0 \<and> c = 0 \<and> s = 0 \<and> f = 0 \<longrightarrow> M = L - W"
    by (simp add: M_def)
  with jed t els run show ?thesis
    by simp
qed

theorem computeEclipticCoordinates_elements_witness:
  "2 < length keplerianElements2050
   \<and> map (column (keplerianElements2050 ! 2)) [1, 2, 3, 4, 5, 6, 7, 8, 9, 10, 11, 12, 13, 14, 15, 16] =
       map Some [1.00000261, 0.01671123, - 0.00001531, 100.46457166, 102.93768193, 0,
                 0.00000562, - 0.00004392, - 0.01294668, 35999.37244981, 0.32327364, 0,
                 0, 0, 0, 0]
   \<and> centuriesPastJ2000 978285600000 = 1 / 100
   \<and> evaluatedElements (keplerianElements2050 ! 2) (centuriesPastJ2000 978285600000) =
       Some \<lparr>el_a = 1.0000026662, el_e = 0.0167107908, el_I = - 0.0001447768,
             el_L = 460.4582961581, el_W = 102.9409146664, el_O = 0,
             el_w = 102.9409146664, el_M = 357.5173814917\<rparr>"
proof -
  have len: "2 < length keplerianElements2050"
    by (simp add: keplerianElements2050_def)
  have cols: "map (column (keplerianElements2050 ! 2)) [1, 2, 3, 4, 5, 6, 7, 8, 9, 10, 11, 12, 13, 14, 15, 16] =
       map Some [1.00000261, 0.01671123, - 0.00001531, 100.46457166, 102.93768193, 0,
                 0.00000562, - 0.00004392, - 0.01294668, 35999.37244981, 0.32327364, 0,
                 0, 0, 0, 0]"
    by (simp add: keplerianElements2050_def column_def)
  from computeEclipticCoordinates_elements [OF len cols, of 978285600000] len cols
  show ?thesis
    by simp
qed

text \<open>
  Claim C5. With the table for 1800 to 2050, the row of the Earth-Moon barycenter
  (index 2) and the instant \<open>(2451545 - 2440587.5) * 86400 * 1000\<close> milliseconds, that
  is JED 2451545.0, \<open>T\<close> is 0, every evaluated element is the base value of the row
  (columns 1 to 6), and the mean anomaly before the modulus is
  \<open>100.46457166 - 102.93768193 = - 2.47311027\<close> degrees.
\<close>

theorem earth_at_J2000:
  "julianEphemerisDate ((2451545 - 2440587.5) * 86400 * 1000) = 2451545
   \<and> centuriesPastJ2000 ((2451545 - 2440587.5) * 86400 * 1000) = 0
   \<and> 2 < length keplerianElements2050
   \<and> (\<exists>els. evaluatedElements (keplerianElements2050 ! 2)
               (centuriesPastJ2000 ((2451545 - 2440587.5) * 86400 * 1000)) = Some els
          \<and> els = \<lparr>el_a = 1.00000261, el_e = 0.01671123, el_I = - 0.00001531,
                    el_L = 100.46457166, el_W = 102.93768193, el_O = 0,
                    el_w = 102.93768193, el_M = - 2.47311027\<rparr>
          \<and> map Some [el_a els, el_e els, el_I els, el_L els, el_W els, el_O els] =
              map (column (keplerianElements2050 ! 2)) [1, 2, 3, 4, 5, 6]
          \<and> el_M els = 100.46457166 - 102.93768193)"
proof -
  have jed: "julianEphemerisDate ((2451545 - 2440587.5) * 86400 * 1000) = 2451545"
    by (simp add: julianEphemerisDate_def)
  then have t: "centuriesPastJ2000 ((2451545 - 2440587.5) * 86400 * 1000) = 0"
    by (simp add: centuriesPastJ2000_def)
  have len: "2 < length keplerianElements2050"
    by (simp add: keplerianElements2050_def)
  have els: "evaluatedElements (keplerianElements2050 ! 2) 0 =
      Some \<lparr>el_a = 1.00000261, el_e = 0.01671123, el_I = - 0.00001531,
            el_L = 100.46457166, el_W = 102.93768193, el_O = 0,
            el_w = 102.93768193, el_M = - 2.47311027\<rparr>"
    unfolding earth_row_2050 by (simp add: evaluatedElements_def column_def)
  have cols: "map Some [1.00000261, 0.01671123, - 0.00001531, 100.46457166, 102.93768193, 0] =
      map (column (keplerianElements2050 ! 2)) [1, 2, 3, 4, 5, 6]"
    unfolding earth_row_2050 by (simp add: column_def)
  from jed t len els cols show ?thesis
    by simp
qed

subsection \<open>The modulus of the mean anomaly\<close>

lemma normalizeM_inside:
  "- 180 \<le> M \<Longrightarrow> M \<le> 180 \<Longrightarrow> normalizeM M = M"
  by (simp add: normalizeM_def)

lemma normalizeM_above:
  assumes "180 < M"
  shows "0 \<le> normalizeM M \<and> normalizeM M < 360"
proof -
  from assms have q: "0 \<le> M / 360"
    by simp
  have "360 * real_of_int \<lfloor>M / 360\<rfloor> \<le> M" and "M < 360 * real_of_int \<lfloor>M / 360\<rfloor> + 360"
    by linarith+
  with assms q show ?thesis
    by (simp add: normalizeM_def js_rem_def)
qed

lemma normalizeM_below:
  assumes "M < - 180"
  shows "- 360 < normalizeM M \<and> normalizeM M \<le> 0"
proof -
  from assms have q: "\<not> 0 \<le> M / 360"
    by simp
  have "M \<le> 360 * real_of_int \<lceil>M / 360\<rceil>" and "360 * real_of_int \<lceil>M / 360\<rceil> - 360 < M"
    by linarith+
  with assms q show ?thesis
    by (simp add: normalizeM_def js_rem_def)
qed

text \<open>
  Claim C3 says that a mean anomaly outside \<open>[-180, 180]\<close> is brought into that range and
  that one inside it is left unchanged. The second half holds (\<open>normalizeM_inside\<close>).
  The first does not: the remainder of a division by 360 lies anywhere between -360 and
  360. For the Earth-Moon barycenter of the table for 1800 to 2050 at the instant
  978285600000 ms (2001-01-01T06:00:00Z, \<open>T = 1/100\<close>) the mean anomaly is
  357.5173814917 degrees before the modulus and after it.
\<close>

theorem normalizeM_outside_range_2001:
  "centuriesPastJ2000 978285600000 = 1 / 100
   \<and> map_option (\<lambda>els. (el_M els, normalizeM (el_M els)))
        (evaluatedElements (keplerianElements2050 ! 2) (centuriesPastJ2000 978285600000)) =
      Some (357.5173814917, 357.5173814917)
   \<and> \<not> (357.5173814917 \<le> (180 :: real))"
proof -
  have t: "centuriesPastJ2000 978285600000 = 1 / 100"
    by (simp add: centuriesPastJ2000_def julianEphemerisDate_def)
  obtain els where els: "evaluatedElements (keplerianElements2050 ! 2) (1 / 100) = Some els"
    and M: "el_M els = 357.5173814917"
    unfolding earth_row_2050 by (simp add: evaluatedElements_def column_def Let_def)
  have "normalizeM 357.5173814917 = 357.5173814917"
    by (simp add: normalizeM_def js_rem_def)
  then have "normalizeM (el_M els) = 357.5173814917"
    by (simp only: M)
  with els M have "map_option (\<lambda>els. (el_M els, normalizeM (el_M els)))
        (evaluatedElements (keplerianElements2050 ! 2) (1 / 100)) =
      Some (357.5173814917, 357.5173814917)"
    by (simp only: option.map prod.inject simp_thms)
  then show ?thesis
    unfolding t by simp
qed

subsection \<open>One correction is not a solution: M = 90, e = 1/4\<close>

text \<open>
  Bounds on the cosine from its Maclaurin expansion.
\<close>

lemma cos_lower:
  fixes x :: real
  assumes "0 < x"
  shows "1 - x ^ 2 / 2 \<le> cos x"
proof -
  from Maclaurin_cos_expansion2 [OF assms, of 2] obtain t where
    "cos x = (\<Sum>m<2. cos_coeff m * x ^ m) + (cos (t + 1 / 2 * real 2 * pi) / fact 2) * x ^ 2"
    by auto
  then have "cos x = 1 - cos t * x ^ 2 / 2"
    by (simp add: cos_coeff_def numeral_2_eq_2)
  moreover have "cos t * x ^ 2 \<le> 1 * x ^ 2"
    by (rule mult_right_mono) simp_all
  ultimately show ?thesis
    by simp
qed

lemma cos_upper:
  fixes x :: real
  assumes "0 < x"
  shows "cos x \<le> 1 - x ^ 2 / 2 + x ^ 4 / 24"
proof -
  from Maclaurin_cos_expansion2 [OF assms, of 4] obtain t where
    "cos x = (\<Sum>m<4. cos_coeff m * x ^ m) + (cos (t + 1 / 2 * real 4 * pi) / fact 4) * x ^ 4"
    by auto
  moreover have "(\<Sum>m<4. cos_coeff m * x ^ m) = 1 - x ^ 2 / 2"
  proof -
    have "(\<Sum>m<4. cos_coeff m * x ^ m) =
        cos_coeff 0 * x ^ 0 + cos_coeff 1 * x ^ 1 + cos_coeff 2 * x ^ 2 + cos_coeff 3 * x ^ 3"
      by (simp add: numeral_eq_Suc)
    moreover have "cos_coeff 1 = 0" "cos_coeff 2 = - 1 / 2" "cos_coeff 3 = 0"
      by (simp_all add: cos_coeff_def)
    ultimately show ?thesis
      by simp
  qed
  moreover have "cos (t + 1 / 2 * real 4 * pi) = cos t"
    by simp
  moreover have "fact 4 = (24 :: real)"
    by (simp add: eval_nat_numeral)
  ultimately have "cos x = 1 - x ^ 2 / 2 + cos t * x ^ 4 / 24"
    by simp
  moreover have "cos t * x ^ 4 \<le> 1 * x ^ 4"
    by (rule mult_right_mono) simp_all
  ultimately show ?thesis
    by simp
qed

lemma anomalyAt_radians: "deg2rad * anomalyAt t = pi / 2 + t"
  by (simp add: anomalyAt_def deg2rad_def field_simps)

lemma anomalyAt_sin: "sin (deg2rad * anomalyAt t) = cos t"
  by (simp add: anomalyAt_radians sin_add)

lemma anomalyAt_cos: "cos (deg2rad * anomalyAt t) = - sin t"
  by (simp add: anomalyAt_radians cos_add)

lemma anomalyAt_diff: "anomalyAt t - anomalyAt t' = 180 / pi * (t - t')"
proof -
  define k where "k = 180 / pi"
  have "(90 + k * t) - (90 + k * t') = k * (t - t')"
    by (simp add: algebra_simps)
  then show ?thesis
    by (simp only: anomalyAt_def k_def)
qed

lemma anomalyAt_less:
  assumes "t' < t"
  shows "anomalyAt t' < anomalyAt t"
proof -
  have "0 < 180 / pi * (t - t')"
    using assms by simp
  then show ?thesis
    using anomalyAt_diff [of t t'] by simp
qed

lemma divisor_quarter: "1 - 1 / 4 * cos (deg2rad * anomalyAt t) = 1 + sin t / 4"
  by (simp add: anomalyAt_cos)

lemma divisor_quarter_ge:
  fixes t :: real
  shows "0 \<le> t \<Longrightarrow> t \<le> 1 / 4 \<Longrightarrow> 1 \<le> 1 + sin t / 4"
  using sin_ge_zero [of t] pi_ge_two by simp

lemma correction_quarter:
  "anomalyAt t + (90 - (anomalyAt t - 180 / pi * (1 / 4) * sin (deg2rad * anomalyAt t)))
          / (1 - 1 / 4 * cos (deg2rad * anomalyAt t)) = anomalyAt (newtonAt t)"
proof -
  define k where "k = 180 / pi"
  define D where "D = 1 + sin t / 4"
  have "90 - (90 + k * t - k * (1 / 4) * cos t) = - (k * (t - cos t / 4))"
    by (simp add: algebra_simps)
  then have "(90 - (90 + k * t - k * (1 / 4) * cos t)) / D = - (k * ((t - cos t / 4) / D))"
    by simp
  then have "90 + k * t + (90 - (90 + k * t - k * (1 / 4) * cos t)) / D
      = 90 + k * (t - (t - cos t / 4) / D)"
    by (simp add: right_diff_distrib)
  then show ?thesis
    unfolding anomalyAt_sin divisor_quarter
    by (simp only: anomalyAt_def newtonAt_def residualAt_def k_def D_def)
qed

lemma residual_quarter: "keplerResidual 90 (1 / 4) (anomalyAt t) = 180 / pi * residualAt t"
proof -
  define k where "k = 180 / pi"
  have "anomalyAt t * pi / 180 = deg2rad * anomalyAt t"
    by (simp add: deg2rad_def)
  then have s: "sin (anomalyAt t * pi / 180) = cos t"
    by (simp only: anomalyAt_sin)
  have "90 + k * t - k * (1 / 4) * cos t - 90 = k * (t - cos t / 4)"
    by (simp add: algebra_simps)
  then show ?thesis
    unfolding keplerResidual_def s
    by (simp only: anomalyAt_def residualAt_def k_def)
qed

lemma newton_step_convex:
  assumes "0 \<le> t" and "t \<le> 1 / 4" and "0 \<le> residualAt t"
  shows "0 \<le> newtonAt t \<and> newtonAt t \<le> t \<and> 0 \<le> residualAt (newtonAt t)"
proof -
  define D where "D = 1 + sin t / 4"
  define d where "d = residualAt t / D"
  have t_pi: "t \<le> pi / 2"
    using assms(2) pi_ge_two by simp
  have sin0: "0 \<le> sin t"
    using assms(1) t_pi by (simp add: sin_ge_zero)
  have cos0: "0 \<le> cos t"
    using assms(1) t_pi by (simp add: cos_ge_zero)
  have D1: "1 \<le> D"
    using sin0 by (simp add: D_def)
  have d0: "0 \<le> d"
    using assms(3) D1 by (simp add: d_def)
  have dD: "d * D = residualAt t"
    using D1 by (simp add: d_def)
  have "d * 1 \<le> d * D"
    using d0 D1 by (rule mult_left_mono [OF _ _, rotated]) 
  then have d_le: "d \<le> residualAt t"
    by (simp add: dD)
  have N: "newtonAt t = t - d"
    by (simp add: newtonAt_def d_def D_def)
  have "t - d \<ge> t - residualAt t"
    using d_le by simp
  then have lower: "0 \<le> t - d"
    using cos0 by (simp add: residualAt_def)
  have "cos t * cos d \<le> cos t * 1"
    using cos0 by (intro mult_left_mono) simp_all
  moreover have "sin t * sin d \<le> sin t * d"
    using sin0 d0 by (intro mult_left_mono) (simp_all add: sin_x_le_x)
  ultimately have "cos (t - d) \<le> cos t + sin t * d"
    by (simp add: cos_diff)
  then have "residualAt (t - d) \<ge> (t - cos t / 4) - d * (1 + sin t / 4)"
    by (simp add: residualAt_def algebra_simps)
  then have "residualAt (t - d) \<ge> residualAt t - d * D"
    by (simp add: residualAt_def D_def)
  then have "0 \<le> residualAt (t - d)"
    by (simp add: dD)
  with lower d0 show ?thesis
    by (simp add: N)
qed

lemma newton_step_strict:
  assumes "0 \<le> t" and "t \<le> 1 / 4" and "0 < residualAt t"
  shows "newtonAt t < t"
proof -
  have "0 < 1 + sin t / 4"
    using divisor_quarter_ge [OF assms(1,2)] by simp
  then have "0 < residualAt t / (1 + sin t / 4)"
    using assms(3) by simp
  then show ?thesis
    by (simp add: newtonAt_def)
qed

lemma newtonRaphson_spec_quarter:
  "newtonRaphson_spec (Suc n) 90 (1 / 4) (180 / pi * (1 / 4)) (anomalyAt t) =
     (if 1 + sin t / 4 = 0 then None
      else if \<bar>anomalyAt t - anomalyAt (newtonAt t)\<bar> \<le> tolerance then Some (anomalyAt (newtonAt t))
      else newtonRaphson_spec n 90 (1 / 4) (180 / pi * (1 / 4)) (anomalyAt (newtonAt t)))"
  unfolding newtonRaphson_spec.simps Let_def correction_quarter
  unfolding divisor_quarter ..

lemma newtonRaphson_spec_decreases:
  assumes "0 \<le> t" and "t \<le> 1 / 4" and "0 \<le> residualAt t"
  shows "\<exists>t'. newtonRaphson_spec n 90 (1 / 4) (180 / pi * (1 / 4)) (anomalyAt t) = Some (anomalyAt t')
             \<and> t' \<le> t"
  using assms
proof (induction n arbitrary: t)
  case 0
  have "newtonRaphson_spec 0 90 (1 / 4) (180 / pi * (1 / 4)) (anomalyAt t) = Some (anomalyAt t) \<and> t \<le> t"
    by simp
  then show ?case
    by blast
next
  case (Suc n)
  from newton_step_convex [OF Suc.prems] have
    N: "0 \<le> newtonAt t" "newtonAt t \<le> t" "0 \<le> residualAt (newtonAt t)"
    by simp_all
  from N(2) Suc.prems(2) have N4: "newtonAt t \<le> 1 / 4"
    by simp
  have D: "1 + sin t / 4 \<noteq> 0"
    using divisor_quarter_ge [OF Suc.prems(1,2)] by simp
  from Suc.IH [OF N(1) N4 N(3)] obtain t' where
    t': "newtonRaphson_spec n 90 (1 / 4) (180 / pi * (1 / 4)) (anomalyAt (newtonAt t)) = Some (anomalyAt t')"
    "t' \<le> newtonAt t"
    by blast
  show ?case
  proof (cases "\<bar>anomalyAt t - anomalyAt (newtonAt t)\<bar> \<le> tolerance")
    case True
    with D have "newtonRaphson_spec (Suc n) 90 (1 / 4) (180 / pi * (1 / 4)) (anomalyAt t)
        = Some (anomalyAt (newtonAt t))"
      by (simp only: newtonRaphson_spec_quarter if_False if_True)
    with N(2) show ?thesis
      by blast
  next
    case False
    with D have "newtonRaphson_spec (Suc n) 90 (1 / 4) (180 / pi * (1 / 4)) (anomalyAt t)
        = newtonRaphson_spec n 90 (1 / 4) (180 / pi * (1 / 4)) (anomalyAt (newtonAt t))"
      by (simp only: newtonRaphson_spec_quarter if_False if_True)
    with t' N(2) show ?thesis
      by auto
  qed
qed

lemma newtonRaphson_spec_after_step:
  assumes "0 \<le> t" and "t \<le> 1 / 4" and "0 \<le> residualAt t"
  shows "\<exists>t'. newtonRaphson_spec (Suc n) 90 (1 / 4) (180 / pi * (1 / 4)) (anomalyAt t) = Some (anomalyAt t')
             \<and> t' \<le> newtonAt t"
proof -
  from newton_step_convex [OF assms] have
    N: "0 \<le> newtonAt t" "newtonAt t \<le> t" "0 \<le> residualAt (newtonAt t)"
    by simp_all
  from N(2) assms(2) have N4: "newtonAt t \<le> 1 / 4"
    by simp
  have D: "1 + sin t / 4 \<noteq> 0"
    using divisor_quarter_ge [OF assms(1,2)] by simp
  show ?thesis
  proof (cases "\<bar>anomalyAt t - anomalyAt (newtonAt t)\<bar> \<le> tolerance")
    case True
    with D have "newtonRaphson_spec (Suc n) 90 (1 / 4) (180 / pi * (1 / 4)) (anomalyAt t)
        = Some (anomalyAt (newtonAt t))"
      by (simp only: newtonRaphson_spec_quarter if_False if_True)
    then show ?thesis
      by blast
  next
    case False
    with D have "newtonRaphson_spec (Suc n) 90 (1 / 4) (180 / pi * (1 / 4)) (anomalyAt t)
        = newtonRaphson_spec n 90 (1 / 4) (180 / pi * (1 / 4)) (anomalyAt (newtonAt t))"
      by (simp only: newtonRaphson_spec_quarter if_False if_True)
    with newtonRaphson_spec_decreases [OF N(1) N4 N(3), of n] show ?thesis
      by auto
  qed
qed

lemma quarter_trig_bounds:
  "31 / 32 \<le> cos (1 / 4 :: real)" "cos (1 / 4 :: real) \<le> 5953 / 6144"
  "0 \<le> sin (1 / 4 :: real)" "sin (1 / 4 :: real) \<le> 1 / 4"
proof -
  have pos: "(0::real) < 1 / 4"
    by simp
  from cos_lower [OF pos] show "31 / 32 \<le> cos (1 / 4 :: real)"
    by (simp add: power2_eq_square)
  from cos_upper [OF pos] show "cos (1 / 4 :: real) \<le> 5953 / 6144"
    by (simp add: power2_eq_square power4_eq_xxxx)
  show "0 \<le> sin (1 / 4 :: real)"
    using pi_ge_two by (intro sin_ge_zero) simp_all
  show "sin (1 / 4 :: real) \<le> 1 / 4"
    by (rule sin_x_le_x) simp
qed

lemma first_correction:
  defines "d \<equiv> residualAt (1 / 4) / (1 + sin (1 / 4) / 4)"
  shows "newtonAt (1 / 4) = 1 / 4 - d" and "191 / 26112 \<le> d" and "d \<le> 1 / 128"
    and "1 / 200000 \<le> residualAt (newtonAt (1 / 4))"
proof -
  define c where "c = cos (1 / 4 :: real)"
  define s where "s = sin (1 / 4 :: real)"
  define D where "D = 1 + s / 4"
  define r where "r = residualAt (1 / 4)"
  note b = quarter_trig_bounds [folded c_def s_def]
  have r: "r = (1 - c) / 4"
    by (simp add: r_def residualAt_def c_def)
  have r_lo: "191 / 24576 \<le> r" and r_hi: "r \<le> 1 / 128"
    using b(1,2) by (simp_all add: r)
  have D_lo: "1 \<le> D" and D_hi: "D \<le> 17 / 16"
    using b(3,4) by (simp_all add: D_def)
  have d: "d = r / D"
    by (simp add: d_def r_def D_def s_def)
  show N: "newtonAt (1 / 4) = 1 / 4 - d"
    by (simp add: newtonAt_def d_def)
  have dD: "d * D = r"
    using D_lo by (simp add: d)
  have "191 / 26112 * D \<le> 191 / 26112 * (17 / 16)"
    using D_hi by (intro mult_left_mono) simp_all
  also have "\<dots> \<le> r"
    using r_lo by simp
  finally have "191 / 26112 * D \<le> d * D"
    by (simp only: dD)
  moreover have "0 < D"
    using D_lo by simp
  ultimately show d_lo: "191 / 26112 \<le> d"
    by (rule mult_right_le_imp_le)
  then have d0: "0 < d"
    by simp
  then have "d * 1 \<le> d * D"
    using D_lo by (intro mult_left_mono) simp_all
  with r_hi show d_hi: "d \<le> 1 / 128"
    by (simp add: dD)
  define q where "q = d ^ 2"
  have "(191 / 26112) ^ 2 \<le> d ^ 2"
    using d_lo by (intro power_mono) simp_all
  then have q_lo: "36481 / 681836544 \<le> q"
    by (simp add: q_def power2_eq_square)
  have "d ^ 2 \<le> (1 / 128) ^ 2"
    using d_hi d0 by (intro power_mono) simp_all
  then have q_hi: "q \<le> 1 / 16384"
    by (simp add: q_def power2_eq_square)
  have c0: "0 \<le> c" and s0: "0 \<le> s"
    using b(1,3) by simp_all
  have "c * cos d \<le> c * (1 - d ^ 2 / 2 + d ^ 4 / 24)"
    using c0 cos_upper [OF d0] by (rule mult_left_mono [rotated])
  moreover have "s * sin d \<le> s * d"
    using s0 d0 by (intro mult_left_mono) (simp_all add: sin_x_le_x)
  ultimately have "cos (1 / 4 - d) \<le> c * (1 - d ^ 2 / 2 + d ^ 4 / 24) + s * d"
    by (simp add: cos_diff c_def s_def)
  then have "1 / 4 - d - (c * (1 - d ^ 2 / 2 + d ^ 4 / 24) + s * d) / 4 \<le> residualAt (1 / 4 - d)"
    by (simp add: residualAt_def)
  moreover have "d ^ 4 = q * q"
    unfolding q_def by (simp add: power4_eq_xxxx power2_eq_square)
  ultimately have "1 / 4 - d - (c * (1 - q / 2 + q * q / 24) + s * d) / 4 \<le> residualAt (1 / 4 - d)"
    by (simp only: q_def [symmetric])
  moreover have "1 / 4 - d - (c * (1 - q / 2 + q * q / 24) + s * d) / 4
      = ((1 - c) / 4 - d * (1 + s / 4)) + c * q * (1 / 8 - q / 96)"
    by (simp add: field_simps)
  moreover have "(1 - c) / 4 - d * (1 + s / 4) = 0"
    using dD by (simp only: r [symmetric] D_def [symmetric])
  ultimately have low: "c * q * (1 / 8 - q / 96) \<le> residualAt (1 / 4 - d)"
    by (simp only: add_0)
  have cq: "31 / 32 * (36481 / 681836544) \<le> c * q"
    using b(1) q_lo by (intro mult_mono) simp_all
  then have cq0: "0 \<le> c * q"
    by simp
  have "1 / 9 \<le> 1 / 8 - q / 96"
    using q_hi by simp
  with cq have "31 / 32 * (36481 / 681836544) * (1 / 9) \<le> c * q * (1 / 8 - q / 96)"
    using cq0 by (rule mult_mono) simp
  with low show "1 / 200000 \<le> residualAt (newtonAt (1 / 4))"
    by (simp add: N)
qed

lemma degrees_per_radian: "45 < 180 / pi"
proof -
  have "45 * pi < 180"
    using pi_less_4 by simp
  then show ?thesis
    by (simp add: less_divide_eq)
qed

lemma tolerance_value: "tolerance = 1 / 100000"
  by (simp add: tolerance_def)

lemma initial_guess_quarter: "90 + 180 / pi * (1 / 4) * sin (90 * deg2rad) = anomalyAt (1 / 4)"
proof -
  have "90 * deg2rad = pi / 2"
    by (simp add: deg2rad_def)
  then show ?thesis
    unfolding anomalyAt_def by (simp only: sin_pi_half mult_1_right)
qed

lemma code_result_quarter:
  "solveKeplerEquation 90 (1 / 4) = Some (anomalyAt (newtonAt (1 / 4)))"
proof -
  have "1 + sin (1 / 4 :: real) / 4 \<noteq> 0"
    using quarter_trig_bounds(3) by simp
  then have "1 - 1 / 4 * cos (deg2rad * anomalyAt (1 / 4)) \<noteq> 0"
    unfolding divisor_quarter .
  then have "1 - 1 / 4 * cos (deg2rad * (90 + 180 / pi * (1 / 4) * sin (90 * deg2rad))) \<noteq> 0"
    unfolding initial_guess_quarter .
  from solveKeplerRun_result [OF this] obtain i d where
    "solveKeplerRun 90 (1 / 4) = Some (i, anomalyAt (newtonAt (1 / 4)), d)"
    unfolding initial_guess_quarter correction_quarter by blast
  then show ?thesis
    by (simp add: solveKeplerEquation_def)
qed

lemma spec_result_quarter:
  "\<exists>t'. solveKeplerEquation_spec 90 (1 / 4) = Some (anomalyAt t') \<and> t' < newtonAt (1 / 4)"
proof -
  define d where "d = residualAt (1 / 4) / (1 + sin (1 / 4) / 4)"
  define k where "k = 180 / pi"
  note fc = first_correction [folded d_def]
  let ?t1 = "newtonAt (1 / 4)"
  have t1: "0 \<le> ?t1" "?t1 \<le> 1 / 4" "0 \<le> residualAt ?t1" "0 < residualAt ?t1"
    using fc by simp_all
  have "1 / 4 - ?t1 = d"
    by (simp add: fc(1))
  then have "anomalyAt (1 / 4) - anomalyAt ?t1 = k * d"
    by (simp only: anomalyAt_diff k_def)
  moreover have "45 * (191 / 26112) \<le> k * d"
    using degrees_per_radian fc(2) unfolding k_def by (intro mult_mono) simp_all
  ultimately have far: "\<not> \<bar>anomalyAt (1 / 4) - anomalyAt ?t1\<bar> \<le> tolerance"
    by (simp add: tolerance_value)
  have D: "1 + sin (1 / 4 :: real) / 4 \<noteq> 0"
    using quarter_trig_bounds(3) by simp
  have "solveKeplerEquation_spec 90 (1 / 4)
      = newtonRaphson_spec (Suc 999) 90 (1 / 4) (180 / pi * (1 / 4)) (anomalyAt (1 / 4))"
    unfolding solveKeplerEquation_spec_def Let_def initial_guess_quarter by simp
  also have "\<dots> = newtonRaphson_spec 999 90 (1 / 4) (180 / pi * (1 / 4)) (anomalyAt ?t1)"
    using D far by (subst newtonRaphson_spec_quarter) simp
  also have "\<dots> = newtonRaphson_spec (Suc 998) 90 (1 / 4) (180 / pi * (1 / 4)) (anomalyAt ?t1)"
    by (rule arg_cong [where f = "\<lambda>n. newtonRaphson_spec n 90 (1 / 4) (180 / pi * (1 / 4)) (anomalyAt ?t1)"])
      simp
  finally have run: "solveKeplerEquation_spec 90 (1 / 4)
      = newtonRaphson_spec (Suc 998) 90 (1 / 4) (180 / pi * (1 / 4)) (anomalyAt ?t1)" .
  from newtonRaphson_spec_after_step [OF t1(1,2,3), of 998] obtain t' where
    t': "newtonRaphson_spec (Suc 998) 90 (1 / 4) (180 / pi * (1 / 4)) (anomalyAt ?t1) = Some (anomalyAt t')"
    "t' \<le> newtonAt ?t1"
    by blast
  have "newtonAt ?t1 < ?t1"
    using t1(1,2,4) by (rule newton_step_strict)
  with t'(2) have "t' < ?t1"
    by simp
  moreover from run t'(1) have "solveKeplerEquation_spec 90 (1 / 4) = Some (anomalyAt t')"
    by (simp only:)
  ultimately show ?thesis
    by blast
qed

text \<open>
  Claim C1 says that for every \<open>M\<close> in \<open>[-180, 180]\<close> and \<open>e\<close> in \<open>[0, 0.3)\<close> the value
  returned by \<open>solveKeplerEquation\<close> satisfies Kepler's equation within the tolerance of
  \<open>1e-5\<close> degrees. At \<open>M = 90\<close>, \<open>e = 1/4\<close> the returned value, a single correction of the
  initial guess, leaves a residual larger than the tolerance (more than \<open>2e-4\<close> degrees).
\<close>

theorem kepler_roundtrip_fails:
  "- 180 \<le> (90 :: real) \<and> (90 :: real) \<le> 180 \<and> 0 \<le> (1 / 4 :: real) \<and> (1 / 4 :: real) < 0.3
   \<and> tolerance = 1 / 100000
   \<and> (\<exists>E. solveKeplerEquation 90 (1 / 4) = Some E \<and> tolerance < \<bar>keplerResidual 90 (1 / 4) E\<bar>)"
proof -
  define k where "k = 180 / pi"
  define R where "R = residualAt (newtonAt (1 / 4))"
  have "45 * (1 / 200000) \<le> k * R"
    using degrees_per_radian first_correction(4) unfolding k_def R_def
    by (intro mult_mono) simp_all
  then have "tolerance < \<bar>k * R\<bar>"
    by (simp add: tolerance_value)
  moreover have "keplerResidual 90 (1 / 4) (anomalyAt (newtonAt (1 / 4))) = k * R"
    by (simp only: residual_quarter k_def R_def)
  ultimately have "tolerance < \<bar>keplerResidual 90 (1 / 4) (anomalyAt (newtonAt (1 / 4)))\<bar>"
    by (simp only:)
  with code_result_quarter have "\<exists>E. solveKeplerEquation 90 (1 / 4) = Some E
      \<and> tolerance < \<bar>keplerResidual 90 (1 / 4) E\<bar>"
    by blast
  then show ?thesis
    by (simp add: tolerance_value)
qed

text \<open>
  Claim C2 says that \<open>solveKeplerEquation\<close> iterates Newton-Raphson, each iteration
  correcting the iterate the previous one produced. At \<open>M = 90\<close>, \<open>e = 1/4\<close> the iteration
  so described goes on after its first correction and ends strictly below the value the
  program returns.
\<close>

theorem solver_not_iterated:
  "\<exists>Ecode Espec. solveKeplerEquation 90 (1 / 4) = Some Ecode
     \<and> solveKeplerEquation_spec 90 (1 / 4) = Some Espec \<and> Espec < Ecode"
proof -
  from spec_result_quarter obtain t' where
    "solveKeplerEquation_spec 90 (1 / 4) = Some (anomalyAt t')" "t' < newtonAt (1 / 4)"
    by blast
  with code_result_quarter anomalyAt_less show ?thesis
    by blast
qed

end
